theory Spec2Isabelle
  imports Main
begin

text \<open>
  A shallow embedding of the token lifecycle and account-security code of go-auth-system:
  the signer (utils/jwt.go), input validation (utils/validation.go), the account and token
  records (models/user.go), the middlewares (middleware/auth.go, middleware/rate_limit.go),
  the handlers (handlers/auth.go, handlers/user.go) and the login route (routes/routes.go).
  The libraries the code calls (golang-jwt, GORM, go-redis, bcrypt, the mail client) are
  modelled as far as the handlers depend on them; each section says how.
\<close>

section \<open>Time\<close>

text \<open>
  Go's \<^verbatim>\<open>time.Time\<close> and \<^verbatim>\<open>time.Duration\<close> count nanoseconds. A point in time is the
  number of nanoseconds since the epoch, a duration a number of nanoseconds. Each handler
  reads the clock several times while it serves one request; the model gives every request
  one clock reading, \<open>now\<close>.
\<close>

type_synonym time = int
type_synonym Duration = int

definition Millisecond :: Duration where
  "Millisecond = 1000000"

definition Second :: Duration where
  "Second = 1000000000"

definition Minute :: Duration where
  "Minute = 60 * Second"

definition Hour :: Duration where
  "Hour = 60 * Minute"

definition Truncate :: "time \<Rightarrow> Duration \<Rightarrow> time" where
  "Truncate t d = (t div d) * d"

section \<open>The signer (utils/jwt.go over golang-jwt v5)\<close>

text \<open>
  \<^verbatim>\<open>type TokenType string\<close> with the two constants of the source.
\<close>

type_synonym TokenType = string

definition AccessToken :: TokenType where
  "AccessToken = ''access''"

definition RefreshToken :: TokenType where
  "RefreshToken = ''refresh''"

text \<open>
  \<^verbatim>\<open>Claims\<close> embeds \<^verbatim>\<open>jwt.RegisteredClaims\<close>; the three dates are pointers there, so
  each may be absent.
\<close>

record Claims =
  UserID :: nat
  TokenType :: TokenType
  ExpiresAt :: "time option"
  IssuedAt :: "time option"
  NotBefore :: "time option"
  Issuer :: string

text \<open>
  The token string is modelled symbolically. \<open>JWT m k c\<close> stands for the compact
  serialisation whose header names the signing method \<open>m\<close>, whose payload is the claim set
  \<open>c\<close> and whose signature was computed under the key \<open>k\<close>; \<open>NotAJWT s\<close> is any other
  string \<open>s\<close>. HMAC signing is deterministic, so the string is a function of method, key
  and claims: equal arguments give the same string.
\<close>

datatype SigningMethod = HS256 | HS384 | HS512 | RS256 | ES256 | NoSignature

datatype jwt = JWT SigningMethod string Claims | NotAJWT string

definition SigningMethodHMAC :: "SigningMethod \<Rightarrow> bool" where
  "SigningMethodHMAC m = (m = HS256 \<or> m = HS384 \<or> m = HS512)"

datatype jwt_error =
    ErrTokenMalformed
  | ErrTokenUnverifiable
  | ErrTokenSignatureInvalid
  | ErrTokenExpired
  | ErrTokenNotValidYet
  | ErrInvalidTokenType

text \<open>
  \<^verbatim>\<open>jwt.NewNumericDate\<close> truncates its argument to \<^verbatim>\<open>jwt.TimePrecision\<close>, one second.
\<close>

definition NewNumericDate :: "time \<Rightarrow> time option" where
  "NewNumericDate t = Some (Truncate t Second)"

definition GenerateAccessToken :: "string \<Rightarrow> time \<Rightarrow> nat \<Rightarrow> jwt" where
  "GenerateAccessToken secret now userID =
     JWT HS256 secret
       \<lparr> UserID = userID,
         TokenType = AccessToken,
         ExpiresAt = NewNumericDate (now + 15 * Minute),
         IssuedAt = NewNumericDate now,
         NotBefore = NewNumericDate now,
         Issuer = ''go-auth-system'' \<rparr>"

definition GenerateRefreshToken :: "string \<Rightarrow> time \<Rightarrow> nat \<Rightarrow> jwt" where
  "GenerateRefreshToken secret now userID =
     JWT HS256 secret
       \<lparr> UserID = userID,
         TokenType = RefreshToken,
         ExpiresAt = NewNumericDate (now + 7 * 24 * Hour),
         IssuedAt = NewNumericDate now,
         NotBefore = NewNumericDate now,
         Issuer = ''go-auth-system'' \<rparr>"

text \<open>
  \<^verbatim>\<open>jwt.ParseWithClaims\<close> with the key function of \<^verbatim>\<open>ValidateToken\<close>: the string must
  parse, the key function refuses every method outside the HMAC family, the signature must
  verify under the configured secret, and the default validator checks the expiry
  (\<^verbatim>\<open>now.Before(exp)\<close>) and the not-before date (\<^verbatim>\<open>!now.Before(nbf)\<close>) when they are
  present. The issued-at date is not checked by default.
\<close>

definition ParseWithClaims :: "string \<Rightarrow> time \<Rightarrow> jwt \<Rightarrow> jwt_error + Claims" where
  "ParseWithClaims secret now tokenString =
     (case tokenString of
        NotAJWT s \<Rightarrow> Inl ErrTokenMalformed
      | JWT m k c \<Rightarrow>
          if \<not> SigningMethodHMAC m then Inl ErrTokenUnverifiable
          else if k \<noteq> secret then Inl ErrTokenSignatureInvalid
          else if (case ExpiresAt c of None \<Rightarrow> False | Some e \<Rightarrow> \<not> now < e)
            then Inl ErrTokenExpired
          else if (case NotBefore c of None \<Rightarrow> False | Some n \<Rightarrow> now < n)
            then Inl ErrTokenNotValidYet
          else Inr c)"

definition ValidateToken :: "string \<Rightarrow> time \<Rightarrow> jwt \<Rightarrow> TokenType \<Rightarrow> jwt_error + Claims" where
  "ValidateToken secret now tokenString expectedType =
     (case ParseWithClaims secret now tokenString of
        Inl err \<Rightarrow> Inl err
      | Inr claims \<Rightarrow>
          if TokenType claims \<noteq> expectedType then Inl ErrInvalidTokenType
          else Inr claims)"

section \<open>Strings (the strings, unicode and regexp packages on ASCII input)\<close>

text \<open>
  A Go string is a byte sequence; \<open>length\<close> is \<^verbatim>\<open>len\<close>. The character classes and
  the case mapping below are those of the unicode package on the ASCII range, where one
  byte is one rune. The theorems about them are stated for ASCII input.
\<close>

definition ascii_upper :: string where
  "ascii_upper = ''ABCDEFGHIJKLMNOPQRSTUVWXYZ''"

definition ascii_lower :: string where
  "ascii_lower = ''abcdefghijklmnopqrstuvwxyz''"

definition ascii_digit :: string where
  "ascii_digit = ''0123456789''"


definition IsUpper :: "char \<Rightarrow> bool" where
  "IsUpper c = (c \<in> set ascii_upper)"

definition IsLower :: "char \<Rightarrow> bool" where
  "IsLower c = (c \<in> set ascii_lower)"

definition IsDigit :: "char \<Rightarrow> bool" where
  "IsDigit c = (c \<in> set ascii_digit)"

text \<open>The ASCII members of the Unicode categories P* and S*.\<close>

definition IsPunct :: "char \<Rightarrow> bool" where
  "IsPunct c = (c \<in> set (''!#%&()*,-./:;?@[]_{}'' @ [CHR 0x22, CHR 0x27, CHR 0x5C]))"

definition IsSymbol :: "char \<Rightarrow> bool" where
  "IsSymbol c = (c \<in> set (''$+<=>^|~'' @ [CHR 0x60]))"

definition ToLower_rune :: "char \<Rightarrow> char" where
  "ToLower_rune c = (case map_of (zip ascii_upper ascii_lower) c of None \<Rightarrow> c | Some l \<Rightarrow> l)"

definition ToLower :: "string \<Rightarrow> string" where
  "ToLower s = map ToLower_rune s"

definition IsSpace :: "char \<Rightarrow> bool" where
  "IsSpace c = (c \<in> set [CHR 0x20, CHR 0x09, CHR 0x0A, CHR 0x0B, CHR 0x0C, CHR 0x0D])"

definition TrimSpace :: "string \<Rightarrow> string" where
  "TrimSpace s = rev (dropWhile IsSpace (rev (dropWhile IsSpace s)))"

definition HasPrefix :: "string \<Rightarrow> string \<Rightarrow> bool" where
  "HasPrefix s p = (take (length p) s = p)"

definition HasSuffix :: "string \<Rightarrow> string \<Rightarrow> bool" where
  "HasSuffix s p = HasPrefix (rev s) (rev p)"

fun Contains :: "string \<Rightarrow> string \<Rightarrow> bool" where
  "Contains [] substr = (substr = [])"
| "Contains (c # cs) substr = (HasPrefix (c # cs) substr \<or> Contains cs substr)"

section \<open>Input validation (utils/validation.go)\<close>

text \<open>
  The pattern \<^verbatim>\<open>^[a-zA-Z0-9._%+-]+@[a-zA-Z0-9.-]+\.[a-zA-Z]{2,}$\<close>. Neither the local
  class nor the domain class holds the at sign, so a match has exactly one, and the part
  before it is the local part. The last class holds no dot, so in the rest the last dot
  separates the domain from the top-level part.
\<close>

definition local_char :: "char \<Rightarrow> bool" where
  "local_char c = (IsLower c \<or> IsUpper c \<or> IsDigit c \<or> c \<in> set ''._%+-'')"

definition domain_char :: "char \<Rightarrow> bool" where
  "domain_char c = (IsLower c \<or> IsUpper c \<or> IsDigit c \<or> c \<in> set ''.-'')"

definition letter_char :: "char \<Rightarrow> bool" where
  "letter_char c = (IsLower c \<or> IsUpper c)"

definition emailRegex :: "string \<Rightarrow> bool" where
  "emailRegex s =
     (let localPart = takeWhile (\<lambda>c. c \<noteq> CHR ''@'') s;
          rest = drop 1 (dropWhile (\<lambda>c. c \<noteq> CHR ''@'') s);
          tld = rev (takeWhile (\<lambda>c. c \<noteq> CHR ''.'') (rev rest));
          dom = rev (drop 1 (dropWhile (\<lambda>c. c \<noteq> CHR ''.'') (rev rest)))
      in CHR ''@'' \<in> set s \<and> localPart \<noteq> [] \<and> list_all local_char localPart
         \<and> CHR ''.'' \<in> set rest \<and> dom \<noteq> [] \<and> list_all domain_char dom
         \<and> 2 \<le> length tld \<and> list_all letter_char tld)"

definition blockedDomains :: "string list" where
  "blockedDomains =
     [''example.com'', ''example.org'', ''example.net'', ''test.com'', ''mailinator.com'',
      ''10minutemail.com'', ''temp-mail.org'', ''yopmail.com'']"

text \<open>
  \<^verbatim>\<open>email[atIndex+1:]\<close> with \<^verbatim>\<open>atIndex = strings.LastIndex(email, "@")\<close>: the part after
  the last at sign. The guard \<^verbatim>\<open>atIndex > -1 && atIndex+1 < len(email)\<close> holds when an
  at sign occurs and is not the last byte.
\<close>

definition domain_after_at :: "string \<Rightarrow> string option" where
  "domain_after_at email =
     (let d = rev (takeWhile (\<lambda>c. c \<noteq> CHR ''@'') (rev email))
      in if CHR ''@'' \<in> set email \<and> d \<noteq> [] then Some d else None)"

definition ValidateEmail :: "string \<Rightarrow> string + string" where
  "ValidateEmail email0 =
     (if email0 = [] then Inl ''email is required''
      else
        let email = ToLower (TrimSpace email0) in
        if \<not> emailRegex email then Inl ''invalid email format''
        else if Contains email ''..'' \<or> HasPrefix email ''.'' \<or> HasSuffix email ''.''
          then Inl ''invalid email format''
        else
          (case domain_after_at email of
             None \<Rightarrow> Inr email
           | Some domain \<Rightarrow>
               if ToLower domain \<in> set blockedDomains
                 then Inl ''email domain is not allowed for registration''
               else Inr email))"

text \<open>
  The loop of \<^verbatim>\<open>ValidatePassword\<close> over the runes of the password: the switch takes the
  first case that applies.
\<close>

fun password_classes :: "string \<Rightarrow> bool \<times> bool \<times> bool \<Rightarrow> bool \<times> bool \<times> bool" where
  "password_classes [] flags = flags"
| "password_classes (c # cs) (hasUpper, hasLower, hasSpecial) =
     password_classes cs
       (if IsUpper c then (True, hasLower, hasSpecial)
        else if IsLower c then (hasUpper, True, hasSpecial)
        else if IsPunct c \<or> IsSymbol c then (hasUpper, hasLower, True)
        else (hasUpper, hasLower, hasSpecial))"

definition weakPasswords :: "string list" where
  "weakPasswords =
     [''password'', ''123456'', ''123456789'', ''qwerty'', ''abc123'',
      ''password123'', ''admin'', ''letmein'', ''welcome'', ''monkey'']"

text \<open>A Go \<^verbatim>\<open>error\<close> result is an optional message: \<open>None\<close> is \<^verbatim>\<open>nil\<close>.\<close>

definition ValidatePassword :: "string \<Rightarrow> string option" where
  "ValidatePassword password =
     (if password = [] then Some ''password is required''
      else if length password < 9 then Some ''password must be at least 9 characters long''
      else if length password > 128 then Some ''password must be less than 128 characters''
      else
        (case password_classes password (False, False, False) of
           (hasUpper, hasLower, hasSpecial) \<Rightarrow>
             if \<not> hasUpper then Some ''password must contain at least one uppercase letter''
             else if \<not> hasLower then Some ''password must contain at least one lowercase letter''
             else if \<not> hasSpecial then Some ''password must contain at least one special character''
             else if list_ex (\<lambda>weak. Contains (ToLower password) weak) weakPasswords
               then Some ''password is too weak''
             else None))"

definition hex_char :: "char \<Rightarrow> bool" where
  "hex_char c = (c \<in> set ''abcdefABCDEF0123456789'')"

definition ValidateTokenFormat :: "string \<Rightarrow> string option" where
  "ValidateTokenFormat token =
     (if token = [] then Some ''token is required''
      else if length token < 32 then Some ''invalid token format''
      else if \<not> list_all hex_char token then Some ''invalid token format''
      else None)"




section \<open>Accounts and token records (models/user.go)\<close>

record User =
  ID :: nat
  Email :: string
  PasswordHash :: string
  FirstName :: string
  LastName :: string
  IsEmailVerified :: bool
  EmailVerifiedAt :: "time option"
  FailedLoginCount :: int
  LockedUntil :: "time option"
  CreatedAt :: time
  UpdatedAt :: time
  LastLoginAt :: "time option"

text \<open>
  The row of \<^verbatim>\<open>models.RefreshToken\<close>. The fields carry a prefix because \<open>UserID\<close> and
  \<open>ExpiresAt\<close> are fields of the claims already.
\<close>

record RefreshTokenRecord =
  rt_ID :: nat
  rt_UserID :: nat
  rt_Token :: jwt
  rt_ExpiresAt :: time
  rt_CreatedAt :: time

text \<open>
  \<^verbatim>\<open>models.PasswordResetToken\<close> and \<^verbatim>\<open>models.EmailVerificationToken\<close> have the same
  fields; one record type serves both tables.
\<close>

record OneTimeToken =
  ott_ID :: nat
  ott_UserID :: nat
  ott_Token :: string
  ott_ExpiresAt :: time
  ott_Used :: bool
  ott_CreatedAt :: time

definition IsAccountLocked :: "User \<Rightarrow> time \<Rightarrow> bool" where
  "IsAccountLocked u t = (case LockedUntil u of None \<Rightarrow> False | Some until \<Rightarrow> t < until)"

definition LockAccount :: "User \<Rightarrow> time \<Rightarrow> Duration \<Rightarrow> User" where
  "LockAccount u t duration = u\<lparr>LockedUntil := Some (t + duration)\<rparr>"

definition UnlockAccount :: "User \<Rightarrow> User" where
  "UnlockAccount u = u\<lparr>LockedUntil := None, FailedLoginCount := 0\<rparr>"

definition IncrementFailedLogin :: "User \<Rightarrow> time \<Rightarrow> User" where
  "IncrementFailedLogin u t =
     (if FailedLoginCount u + 1 \<ge> 5
      then LockAccount (u\<lparr>FailedLoginCount := FailedLoginCount u + 1\<rparr>) t (15 * Minute)
      else u\<lparr>FailedLoginCount := FailedLoginCount u + 1\<rparr>)"

definition ResetFailedLoginCount :: "User \<Rightarrow> User" where
  "ResetFailedLoginCount u = UnlockAccount (u\<lparr>FailedLoginCount := 0\<rparr>)"

section \<open>The environment of a request\<close>

text \<open>
  What a request reads from outside the store and the cache: the clock, the configured
  signing secret, whether the cache answers while the request is served, bcrypt
  (\<^verbatim>\<open>utils.HashPassword\<close>, \<open>None\<close> when it fails, and \<^verbatim>\<open>utils.CheckPasswordHash\<close>), the
  result of \<^verbatim>\<open>GenerateRandomToken(32)\<close> (the hex form of 32 random bytes, \<open>None\<close> when the
  random source fails) and the result of the mail delivery (\<open>None\<close> when the mail was sent,
  the error text otherwise).
\<close>

record Env =
  Now :: time
  JWTSecret :: string
  RedisUp :: bool
  HashPassword :: "string \<Rightarrow> string option"
  CheckPasswordHash :: "string \<Rightarrow> string \<Rightarrow> bool"
  RandomToken :: "string option"
  MailError :: "string option"

definition SetPassword :: "Env \<Rightarrow> User \<Rightarrow> string \<Rightarrow> User option" where
  "SetPassword env u password =
     (case HashPassword env password of
        None \<Rightarrow> None
      | Some hash \<Rightarrow> Some (u\<lparr>PasswordHash := hash\<rparr>))"

definition CheckPassword :: "Env \<Rightarrow> User \<Rightarrow> string \<Rightarrow> bool" where
  "CheckPassword env u password = CheckPasswordHash env password (PasswordHash u)"

section \<open>The relational store (GORM over the four tables)\<close>

text \<open>
  A table is the list of its rows; each table has the sequence that numbers new rows. The
  store itself is taken to answer every statement; what it refuses is a row that breaks a
  unique index (the email of a user, the token of a token row). Every query of the handlers
  filters on a unique column, so \<^verbatim>\<open>First\<close> is the search for the matching row.
\<close>

record DB =
  users :: "User list"
  refresh_tokens :: "RefreshTokenRecord list"
  password_reset_tokens :: "OneTimeToken list"
  email_verification_tokens :: "OneTimeToken list"
  users_seq :: nat
  refresh_tokens_seq :: nat
  password_reset_tokens_seq :: nat
  email_verification_tokens_seq :: nat

text \<open>\<^verbatim>\<open>Create\<close>: \<open>None\<close> is the error of a unique index.\<close>

definition Create_user :: "User \<Rightarrow> DB \<Rightarrow> (User \<times> DB) option" where
  "Create_user u db =
     (if list_ex (\<lambda>x. Email x = Email u) (users db) then None
      else Some (u\<lparr>ID := Suc (users_seq db)\<rparr>,
                 db\<lparr>users := users db @ [u\<lparr>ID := Suc (users_seq db)\<rparr>],
                    users_seq := Suc (users_seq db)\<rparr>))"

definition Create_refresh_token :: "time \<Rightarrow> RefreshTokenRecord \<Rightarrow> DB \<Rightarrow> DB option" where
  "Create_refresh_token t r db =
     (if list_ex (\<lambda>x. rt_Token x = rt_Token r) (refresh_tokens db) then None
      else Some (db\<lparr>refresh_tokens :=
                       refresh_tokens db
                         @ [r\<lparr>rt_ID := Suc (refresh_tokens_seq db), rt_CreatedAt := t\<rparr>],
                    refresh_tokens_seq := Suc (refresh_tokens_seq db)\<rparr>))"

definition Create_password_reset_token :: "time \<Rightarrow> OneTimeToken \<Rightarrow> DB \<Rightarrow> DB option" where
  "Create_password_reset_token t r db =
     (if list_ex (\<lambda>x. ott_Token x = ott_Token r) (password_reset_tokens db) then None
      else Some (db\<lparr>password_reset_tokens :=
                       password_reset_tokens db
                         @ [r\<lparr>ott_ID := Suc (password_reset_tokens_seq db), ott_CreatedAt := t\<rparr>],
                    password_reset_tokens_seq := Suc (password_reset_tokens_seq db)\<rparr>))"


text \<open>
  \<^verbatim>\<open>Save\<close> of a user with a primary key: every column of the row with that key is
  written and the update time is set; without such a row the user is inserted. \<open>None\<close> is
  the error of the unique index on the email. A zero primary key makes \<^verbatim>\<open>Save\<close> a
  \<^verbatim>\<open>Create\<close>.
\<close>

definition Save_user :: "time \<Rightarrow> User \<Rightarrow> DB \<Rightarrow> DB option" where
  "Save_user t u db =
     (if ID u = 0 then map_option snd (Create_user (u\<lparr>UpdatedAt := t\<rparr>) db)
      else if list_ex (\<lambda>x. Email x = Email u \<and> ID x \<noteq> ID u) (users db) then None
      else if list_ex (\<lambda>x. ID x = ID u) (users db)
        then Some (db\<lparr>users := map (\<lambda>x. if ID x = ID u then u\<lparr>UpdatedAt := t\<rparr> else x) (users db)\<rparr>)
      else Some (db\<lparr>users := users db @ [u\<lparr>UpdatedAt := t\<rparr>]\<rparr>))"

text \<open>
  \<^verbatim>\<open>Save\<close> of a one-time token row that was just read with only its used flag changed:
  the row with that primary key is overwritten.
\<close>

definition Save_one_time_token :: "OneTimeToken \<Rightarrow> OneTimeToken list \<Rightarrow> OneTimeToken list" where
  "Save_one_time_token r rows = map (\<lambda>x. if ott_ID x = ott_ID r then r else x) rows"

text \<open>A statement whose error the handler drops leaves the store as it was when it fails.\<close>

definition or_unchanged :: "DB option \<Rightarrow> DB \<Rightarrow> DB" where
  "or_unchanged r db = (case r of None \<Rightarrow> db | Some db' \<Rightarrow> db')"

section \<open>The cache (go-redis v8)\<close>

text \<open>
  The keys are the strings the source builds by prefixing, kept apart by constructor. A
  value is a text or a counter; an entry may carry the time at which it expires. Whether
  the cache can be reached is given per request (\<open>RedisUp\<close>): when it cannot, every command
  of the request returns an error and writes nothing.
\<close>

datatype rediskey = blacklist jwt | login_attempts string | user_session nat

datatype redisval = Text string | Counter int

type_synonym redis = "rediskey \<Rightarrow> (redisval \<times> time option) option"

text \<open>The reply of a command: an error, \<^verbatim>\<open>redis.Nil\<close>, or a value.\<close>

datatype 'a reply = RedisError | RedisNil | RedisReply 'a

definition redis_live :: "redis \<Rightarrow> time \<Rightarrow> rediskey \<Rightarrow> (redisval \<times> time option) option" where
  "redis_live rd t k =
     (case rd k of
        None \<Rightarrow> None
      | Some (v, None) \<Rightarrow> Some (v, None)
      | Some (v, Some e) \<Rightarrow> if t < e then Some (v, Some e) else None)"

text \<open>Go's integer division truncates towards zero.\<close>

definition quot :: "int \<Rightarrow> int \<Rightarrow> int" where
  "quot a b = (if a < 0 then - ((- a) div b) else a div b)"

text \<open>
  How go-redis turns a duration into the argument of a command: whole seconds for
  \<^verbatim>\<open>EXPIRE\<close> and \<^verbatim>\<open>SET ... EX\<close>, milliseconds for \<^verbatim>\<open>SET ... PX\<close>; a positive duration
  below the unit is raised to one unit.
\<close>

definition formatSec :: "Duration \<Rightarrow> int" where
  "formatSec dur = (if dur > 0 \<and> dur < Second then 1 else quot dur Second)"

definition formatMs :: "Duration \<Rightarrow> int" where
  "formatMs dur = (if dur > 0 \<and> dur < Millisecond then 1 else quot dur Millisecond)"

definition usePrecise :: "Duration \<Rightarrow> bool" where
  "usePrecise dur = (dur < Second \<or> dur mod Second \<noteq> 0)"

definition redis_Get :: "bool \<Rightarrow> redis \<Rightarrow> time \<Rightarrow> rediskey \<Rightarrow> redisval reply" where
  "redis_Get up rd t k =
     (if \<not> up then RedisError
      else case redis_live rd t k of None \<Rightarrow> RedisNil | Some (v, e) \<Rightarrow> RedisReply v)"

text \<open>
  \<^verbatim>\<open>Set\<close> with a positive expiration; every caller drops its error, so an unreachable
  cache leaves the entry unwritten.
\<close>

definition redis_Set :: "bool \<Rightarrow> redis \<Rightarrow> time \<Rightarrow> rediskey \<Rightarrow> string \<Rightarrow> Duration \<Rightarrow> redis" where
  "redis_Set up rd t k v expiration =
     (if \<not> up then rd
      else if expiration > 0
        then rd(k \<mapsto> (Text v,
               Some (t + (if usePrecise expiration then formatMs expiration * Millisecond
                          else formatSec expiration * Second))))
      else rd(k \<mapsto> (Text v, None)))"


definition redis_Incr :: "bool \<Rightarrow> redis \<Rightarrow> time \<Rightarrow> rediskey \<Rightarrow> int reply \<times> redis" where
  "redis_Incr up rd t k =
     (if \<not> up then (RedisError, rd)
      else case redis_live rd t k of
             None \<Rightarrow> (RedisReply 1, rd(k \<mapsto> (Counter 1, None)))
           | Some (Counter n, e) \<Rightarrow> (RedisReply (n + 1), rd(k \<mapsto> (Counter (n + 1), e)))
           | Some (Text s, e) \<Rightarrow> (RedisError, rd))"

definition redis_Expire :: "bool \<Rightarrow> redis \<Rightarrow> time \<Rightarrow> rediskey \<Rightarrow> Duration \<Rightarrow> redis" where
  "redis_Expire up rd t k expiration =
     (if \<not> up then rd
      else case redis_live rd t k of
             None \<Rightarrow> rd
           | Some (v, e) \<Rightarrow> rd(k \<mapsto> (v, Some (t + formatSec expiration * Second))))"

text \<open>The remaining time to live of a key, as \<^verbatim>\<open>TTL\<close> would report it.\<close>

definition redis_TTL :: "redis \<Rightarrow> time \<Rightarrow> rediskey \<Rightarrow> Duration option" where
  "redis_TTL rd t k =
     (case redis_live rd t k of
        Some (v, Some e) \<Rightarrow> Some (e - t)
      | _ \<Rightarrow> None)"

section \<open>Responses\<close>

text \<open>
  \<^verbatim>\<open>c.JSON(code, gin.H{...})\<close>: a status code and the members of the object in the order
  of the source. A duration written with \<^verbatim>\<open>Seconds()\<close> is kept as the duration.
\<close>

datatype jvalue = JString string | JNumber int | JToken jwt | JSeconds Duration

record Response =
  StatusCode :: nat
  JSON :: "(string \<times> jvalue) list"

definition error_response :: "nat \<Rightarrow> string \<Rightarrow> Response" where
  "error_response code msg = \<lparr>StatusCode = code, JSON = [(''error'', JString msg)]\<rparr>"

definition message_response :: "nat \<Rightarrow> string \<Rightarrow> Response" where
  "message_response code msg = \<lparr>StatusCode = code, JSON = [(''message'', JString msg)]\<rparr>"

text \<open>A middleware either answers and aborts the chain or passes on.\<close>

datatype 'a outcome = Abort Response | Next 'a

section \<open>The middlewares (middleware/auth.go, middleware/rate_limit.go)\<close>

text \<open>
  The \<^verbatim>\<open>Authorization\<close> header is \<open>Some tok\<close> when it starts with \<^verbatim>\<open>Bearer \<close> and
  \<open>tok\<close> is what follows, \<open>None\<close> otherwise.
\<close>

definition AuthMiddleware :: "Env \<Rightarrow> jwt option \<Rightarrow> redis \<Rightarrow> nat outcome" where
  "AuthMiddleware env authHeader rd =
     (case authHeader of
        None \<Rightarrow> Abort (error_response 401 ''Unauthorized'')
      | Some tokenString \<Rightarrow>
          if redis_Get (RedisUp env) rd (Now env) (blacklist tokenString) = RedisReply (Text ''true'')
            then Abort (error_response 401 ''Token has been revoked'')
          else
            (case ValidateToken (JWTSecret env) (Now env) tokenString AccessToken of
               Inl err \<Rightarrow> Abort (error_response 401 ''Invalid token'')
             | Inr claims \<Rightarrow> Next (UserID claims)))"

definition LoginRateLimit :: "int \<Rightarrow> Duration \<Rightarrow> Env \<Rightarrow> string \<Rightarrow> redis \<Rightarrow> unit outcome \<times> redis" where
  "LoginRateLimit maxAttempts window env clientIP rd =
     (case redis_Incr (RedisUp env) rd (Now env) (login_attempts clientIP) of
        (RedisError, rd1) \<Rightarrow> (Abort (error_response 500 ''Rate limit error''), rd1)
      | (RedisNil, rd1) \<Rightarrow> (Abort (error_response 500 ''Rate limit error''), rd1)
      | (RedisReply count, rd1) \<Rightarrow>
          (if count > maxAttempts
           then Abort \<lparr>StatusCode = 429,
                       JSON = [(''error'', JString ''Too many login attempts''),
                               (''retry_after'', JSeconds window)]\<rparr>
           else Next (),
           if count = 1 then redis_Expire (RedisUp env) rd1 (Now env) (login_attempts clientIP) window
           else rd1))"

section \<open>The handlers (handlers/auth.go, handlers/user.go)\<close>

text \<open>
  The body of a request is \<open>None\<close> when \<^verbatim>\<open>ShouldBindJSON\<close> fails. A handler takes the
  store, and the cache when it uses it, and returns them with its response. The lines the
  handlers write to the security log and to the console are left out: no response and no
  stored value depends on them. \<^verbatim>\<open>AuthHandler.RefreshToken\<close> is \<open>RefreshToken_handler\<close>
  here, since \<open>RefreshToken\<close> is the token type of the signer.
\<close>

definition token_response :: "jwt \<Rightarrow> jwt \<Rightarrow> Response" where
  "token_response accessToken refreshToken =
     \<lparr>StatusCode = 200,
      JSON = [(''access_token'', JToken accessToken),
              (''refresh_token'', JToken refreshToken),
              (''token_type'', JString ''Bearer''),
              (''expires_in'', JNumber 100000)]\<rparr>"


definition Login :: "Env \<Rightarrow> (string \<times> string) option \<Rightarrow> DB \<Rightarrow> Response \<times> DB" where
  "Login env input db =
     (case input of
        None \<Rightarrow> (error_response 400 ''Invalid input format'', db)
      | Some (email, password) \<Rightarrow>
     (case ValidateEmail email of
        Inl err \<Rightarrow> (error_response 400 err, db)
      | Inr normalizedEmail \<Rightarrow>
     if password = [] then (error_response 400 ''Password is required'', db)
     else
     (case find (\<lambda>u. Email u = normalizedEmail) (users db) of
        None \<Rightarrow> (error_response 401 ''Invalid credentials'', db)
      | Some user \<Rightarrow>
     if IsAccountLocked user (Now env)
       then (error_response 423
               ''Account is temporarily locked due to too many failed login attempts'', db)
     else if \<not> CheckPassword env user password
       then (error_response 401 ''Invalid credentials'',
             or_unchanged (Save_user (Now env) (IncrementFailedLogin user (Now env)) db) db)
     else
     (case Create_refresh_token (Now env)
             \<lparr>rt_ID = 0, rt_UserID = ID user,
              rt_Token = GenerateRefreshToken (JWTSecret env) (Now env) (ID user),
              rt_ExpiresAt = Now env + 7 * 24 * Hour, rt_CreatedAt = Now env\<rparr>
             (or_unchanged
                (Save_user (Now env) ((ResetFailedLoginCount user)\<lparr>LastLoginAt := Some (Now env)\<rparr>) db)
                db) of
        None \<Rightarrow>
          (error_response 500 ''Could not store refresh token'',
           or_unchanged
             (Save_user (Now env) ((ResetFailedLoginCount user)\<lparr>LastLoginAt := Some (Now env)\<rparr>) db)
             db)
      | Some db2 \<Rightarrow>
          (token_response (GenerateAccessToken (JWTSecret env) (Now env) (ID user))
             (GenerateRefreshToken (JWTSecret env) (Now env) (ID user)),
           db2)))))"

text \<open>
  The expiration of the blacklist entry of an access token, as \<^verbatim>\<open>RefreshToken\<close> and
  \<^verbatim>\<open>Logout\<close> both compute it: the remaining lifetime when the token validates and it is
  positive, fifteen minutes otherwise.
\<close>

definition blacklist_ttl :: "Env \<Rightarrow> jwt \<Rightarrow> Duration" where
  "blacklist_ttl env currentAccessToken =
     (case ValidateToken (JWTSecret env) (Now env) currentAccessToken AccessToken of
        Inl err \<Rightarrow> 15 * Minute
      | Inr accessClaims \<Rightarrow>
          (case ExpiresAt accessClaims of
             None \<Rightarrow> 15 * Minute
           | Some e \<Rightarrow> if e - Now env > 0 then e - Now env else 15 * Minute))"

definition blacklist_access_token :: "Env \<Rightarrow> jwt option \<Rightarrow> redis \<Rightarrow> redis" where
  "blacklist_access_token env authHeader rd =
     (case authHeader of
        None \<Rightarrow> rd
      | Some currentAccessToken \<Rightarrow>
          redis_Set (RedisUp env) rd (Now env) (blacklist currentAccessToken) ''true''
            (blacklist_ttl env currentAccessToken))"

text \<open>
  The body of \<^verbatim>\<open>RefreshToken\<close> is \<open>None\<close> when binding fails, which a missing or empty
  \<^verbatim>\<open>refresh_token\<close> makes it do.
\<close>

definition RefreshToken_handler ::
  "Env \<Rightarrow> jwt option \<Rightarrow> jwt option \<Rightarrow> DB \<Rightarrow> redis \<Rightarrow> Response \<times> DB \<times> redis" where
  "RefreshToken_handler env input authHeader db rd =
     (case input of
        None \<Rightarrow> (error_response 400 ''Invalid input'', db, rd)
      | Some refreshToken \<Rightarrow>
     (case ValidateToken (JWTSecret env) (Now env) refreshToken RefreshToken of
        Inl err \<Rightarrow> (error_response 401 ''Invalid refresh token'', db, rd)
      | Inr claims \<Rightarrow>
     if redis_Get (RedisUp env) rd (Now env) (blacklist refreshToken) = RedisReply (Text ''true'')
       then (error_response 401 ''Refresh token has been revoked'', db, rd)
     else
     (case find (\<lambda>r. rt_Token r = refreshToken \<and> rt_ExpiresAt r > Now env) (refresh_tokens db) of
        None \<Rightarrow> (error_response 401 ''Invalid refresh token'', db, rd)
      | Some refreshTokenRecord \<Rightarrow>
     (case Create_refresh_token (Now env)
             \<lparr>rt_ID = 0, rt_UserID = UserID claims,
              rt_Token = GenerateRefreshToken (JWTSecret env) (Now env) (UserID claims),
              rt_ExpiresAt = Now env + 7 * 24 * Hour, rt_CreatedAt = Now env\<rparr>
             (db\<lparr>refresh_tokens := filter (\<lambda>r. rt_Token r \<noteq> refreshToken) (refresh_tokens db)\<rparr>) of
        None \<Rightarrow>
          (error_response 500 ''Could not store new refresh token'',
           db\<lparr>refresh_tokens := filter (\<lambda>r. rt_Token r \<noteq> refreshToken) (refresh_tokens db)\<rparr>,
           redis_Set (RedisUp env) (blacklist_access_token env authHeader rd) (Now env)
             (blacklist refreshToken) ''true'' (7 * 24 * Hour))
      | Some db2 \<Rightarrow>
          (token_response (GenerateAccessToken (JWTSecret env) (Now env) (UserID claims))
             (GenerateRefreshToken (JWTSecret env) (Now env) (UserID claims)),
           db2,
           redis_Set (RedisUp env) (blacklist_access_token env authHeader rd) (Now env)
             (blacklist refreshToken) ''true'' (7 * 24 * Hour))))))"


definition VerifyEmail :: "Env \<Rightarrow> string \<Rightarrow> DB \<Rightarrow> Response \<times> DB" where
  "VerifyEmail env token db =
     (if token = [] then (error_response 400 ''Token is required'', db)
      else
        (case find (\<lambda>r. ott_Token r = token \<and> ott_ExpiresAt r > Now env \<and> ott_Used r = False)
                (email_verification_tokens db) of
           None \<Rightarrow> (error_response 400 ''Invalid or expired token'', db)
         | Some verificationToken \<Rightarrow>
             (message_response 200 ''Email verified successfully'',
              db\<lparr>email_verification_tokens :=
                    Save_one_time_token (verificationToken\<lparr>ott_Used := True\<rparr>)
                      (email_verification_tokens db),
                 users :=
                    map (\<lambda>u. if ID u = ott_UserID verificationToken
                              then u\<lparr>IsEmailVerified := True, EmailVerifiedAt := Some (Now env),
                                     UpdatedAt := Now env\<rparr>
                              else u)
                      (users db)\<rparr>)))"

definition ForgotPassword :: "Env \<Rightarrow> string option \<Rightarrow> DB \<Rightarrow> Response \<times> DB" where
  "ForgotPassword env input db =
     (case input of
        None \<Rightarrow> (error_response 400 ''Invalid input format'', db)
      | Some email \<Rightarrow>
     (case ValidateEmail email of
        Inl err \<Rightarrow> (error_response 400 err, db)
      | Inr normalizedEmail \<Rightarrow>
     (case find (\<lambda>u. Email u = normalizedEmail) (users db) of
        None \<Rightarrow>
          (message_response 200 ''If the email exists, a password reset link has been sent'', db)
      | Some user \<Rightarrow>
     (case RandomToken env of
        None \<Rightarrow> (error_response 500 ''Could not generate reset token'', db)
      | Some resetToken \<Rightarrow>
     (case Create_password_reset_token (Now env)
             \<lparr>ott_ID = 0, ott_UserID = ID user, ott_Token = resetToken,
              ott_ExpiresAt = Now env + 1 * Hour, ott_Used = False, ott_CreatedAt = Now env\<rparr> db of
        None \<Rightarrow> (error_response 500 ''Could not create reset token'', db)
      | Some db1 \<Rightarrow>
     (case MailError env of
        Some err \<Rightarrow>
          (\<lparr>StatusCode = 200,
            JSON = [(''message'', JString ''If the email exists, a password reset link has been sent''),
                    (''reset_token'', JString resetToken),
                    (''note'', JString ''Email sending failed - using token for testing''),
                    (''error'', JString err)]\<rparr>,
           db1)
      | None \<Rightarrow>
          (message_response 200 ''If the email exists, a password reset link has been sent'',
           db1)))))))"

definition ResetPassword :: "Env \<Rightarrow> (string \<times> string) option \<Rightarrow> DB \<Rightarrow> Response \<times> DB" where
  "ResetPassword env input db =
     (case input of
        None \<Rightarrow> (error_response 400 ''Invalid input format'', db)
      | Some (token, new_password) \<Rightarrow>
     (case ValidateTokenFormat token of
        Some err \<Rightarrow> (error_response 400 err, db)
      | None \<Rightarrow>
     (case ValidatePassword new_password of
        Some err \<Rightarrow> (error_response 400 err, db)
      | None \<Rightarrow>
     (case find (\<lambda>r. ott_Token r = token \<and> ott_ExpiresAt r > Now env \<and> ott_Used r = False)
             (password_reset_tokens db) of
        None \<Rightarrow> (error_response 400 ''Invalid or expired token'', db)
      | Some resetToken \<Rightarrow>
     (case find (\<lambda>u. ID u = ott_UserID resetToken) (users db) of
        None \<Rightarrow>
          (error_response 404 ''User not found'',
           db\<lparr>password_reset_tokens :=
                 Save_one_time_token (resetToken\<lparr>ott_Used := True\<rparr>) (password_reset_tokens db)\<rparr>)
      | Some user \<Rightarrow>
     (case SetPassword env user new_password of
        None \<Rightarrow>
          (error_response 500 ''Could not reset password'',
           db\<lparr>password_reset_tokens :=
                 Save_one_time_token (resetToken\<lparr>ott_Used := True\<rparr>) (password_reset_tokens db)\<rparr>)
      | Some user1 \<Rightarrow>
     (case Save_user (Now env) (ResetFailedLoginCount user1)
             (db\<lparr>password_reset_tokens :=
                   Save_one_time_token (resetToken\<lparr>ott_Used := True\<rparr>) (password_reset_tokens db)\<rparr>) of
        None \<Rightarrow>
          (error_response 500 ''Could not update user'',
           db\<lparr>password_reset_tokens :=
                 Save_one_time_token (resetToken\<lparr>ott_Used := True\<rparr>) (password_reset_tokens db)\<rparr>)
      | Some db2 \<Rightarrow> (message_response 200 ''Password reset successfully'', db2))))))))"


section \<open>Requests and routes (routes/routes.go)\<close>


definition with_cache :: "redis \<Rightarrow> Response \<times> DB \<Rightarrow> Response \<times> DB \<times> redis" where
  "with_cache rd r = (fst r, snd r, rd)"


text \<open>
  The login route of \<^verbatim>\<open>SetupRoutes\<close>: \<^verbatim>\<open>rateLimiter.LoginRateLimit(5, 15*60)\<close> before
  \<^verbatim>\<open>authHandler.Login\<close>. The second argument is a \<^verbatim>\<open>time.Duration\<close>, so the constant
  \<^verbatim>\<open>15*60\<close> is 900 nanoseconds. The general limiter by client address and the check
  for a CSRF header, which the route group runs before the two, are not part of this
  definition.
\<close>

definition login_route ::
  "Env \<Rightarrow> string \<Rightarrow> (string \<times> string) option \<Rightarrow> DB \<Rightarrow> redis \<Rightarrow> Response \<times> DB \<times> redis" where
  "login_route env clientIP input db rd =
     (case LoginRateLimit 5 (15 * 60) env clientIP rd of
        (Abort response, rd1) \<Rightarrow> (response, db, rd1)
      | (Next u, rd1) \<Rightarrow> with_cache rd1 (Login env input db))"

text \<open>
  A series of requests to the login limiter from one client address, at the given times,
  each with the cache as the one before left it.
\<close>

fun login_attempt_series ::
  "int \<Rightarrow> Duration \<Rightarrow> Env \<Rightarrow> string \<Rightarrow> time list \<Rightarrow> redis \<Rightarrow> unit outcome list \<times> redis" where
  "login_attempt_series maxAttempts window env clientIP [] rd = ([], rd)"
| "login_attempt_series maxAttempts window env clientIP (t # ts) rd =
     (case LoginRateLimit maxAttempts window (env\<lparr>Now := t\<rparr>) clientIP rd of
        (out, rd1) \<Rightarrow>
          (case login_attempt_series maxAttempts window env clientIP ts rd1 of
             (outs, rd2) \<Rightarrow> (out # outs, rd2)))"

definition too_many_login_attempts :: "Duration \<Rightarrow> Response" where
  "too_many_login_attempts window =
     \<lparr>StatusCode = 429,
      JSON = [(''error'', JString ''Too many login attempts''),
              (''retry_after'', JSeconds window)]\<rparr>"

section \<open>The integrity constraints of the store\<close>

text \<open>
  What the schema enforces on every state of the store: primary keys are distinct and not
  zero, and the unique indexes hold (the email of a user, the token of each token table).
\<close>

definition store_ok :: "DB \<Rightarrow> bool" where
  "store_ok db =
     (distinct (map ID (users db))
      \<and> list_all (\<lambda>u. 0 < ID u) (users db)
      \<and> distinct (map Email (users db))
      \<and> distinct (map rt_Token (refresh_tokens db))
      \<and> distinct (map ott_Token (password_reset_tokens db))
      \<and> distinct (map ott_Token (email_verification_tokens db)))"

section \<open>The failed-attempt counter across a request\<close>


section \<open>A sample state\<close>

text \<open>
  A small concrete environment and store, on which the theorems below are instantiated.
  The sample bcrypt keeps the password readable: the hash of \<open>p\<close> is \<open>p\<close> behind a tag.
\<close>

definition sample_token :: string where
  "sample_token = ''00112233445566778899aabbccddeeff00112233445566778899aabbccddeeff''"

definition sample_env :: Env where
  "sample_env =
     \<lparr>Now = 1000 * Second, JWTSecret = ''secret'', RedisUp = True,
      HashPassword = (\<lambda>p. Some (''bcrypt:'' @ p)),
      CheckPasswordHash = (\<lambda>p h. h = ''bcrypt:'' @ p),
      RandomToken = Some sample_token, MailError = None\<rparr>"

definition sample_user :: User where
  "sample_user =
     \<lparr>ID = 1, Email = ''alice@corp.io'', PasswordHash = ''bcrypt:Correct-Horse'',
      FirstName = ''Alice'', LastName = ''Liddell'', IsEmailVerified = False,
      EmailVerifiedAt = None, FailedLoginCount = 4, LockedUntil = None,
      CreatedAt = 0, UpdatedAt = 0, LastLoginAt = None\<rparr>"

definition sample_one_time_token :: OneTimeToken where
  "sample_one_time_token =
     \<lparr>ott_ID = 1, ott_UserID = 1, ott_Token = sample_token, ott_ExpiresAt = 2000 * Second,
      ott_Used = False, ott_CreatedAt = 0\<rparr>"

definition sample_db :: DB where
  "sample_db =
     \<lparr>users = [sample_user], refresh_tokens = [],
      password_reset_tokens = [sample_one_time_token],
      email_verification_tokens = [sample_one_time_token],
      users_seq = 1, refresh_tokens_seq = 0, password_reset_tokens_seq = 1,
      email_verification_tokens_seq = 1\<rparr>"


text \<open>
  The tokens of the sample account: the pair a login at the sample time issues, an access
  token issued at time 0, whose fifteen minutes are over at the sample time, and the cache
  after the access token of the pair was blacklisted, as \<^verbatim>\<open>Logout\<close> does it.
\<close>

definition sample_access_token :: jwt where
  "sample_access_token = GenerateAccessToken ''secret'' (1000 * Second) 1"

definition sample_refresh_token :: jwt where
  "sample_refresh_token = GenerateRefreshToken ''secret'' (1000 * Second) 1"

definition expired_access_token :: jwt where
  "expired_access_token = GenerateAccessToken ''secret'' 0 1"

definition sample_blacklist :: redis where
  "sample_blacklist =
     redis_Set True Map.empty (1000 * Second) (blacklist sample_access_token) ''true'' (15 * Minute)"

text \<open>
  Three requests of the sample account within one second of the clock: a login, a refresh
  with the refresh token of the login 300 milliseconds later, and a second refresh with
  the same token string another 300 milliseconds later, while the cache does not answer.
\<close>

definition replay_login :: "Response \<times> DB" where
  "replay_login = Login sample_env (Some (''alice@corp.io'', ''Correct-Horse'')) sample_db"

definition replay_first :: "Response \<times> DB \<times> redis" where
  "replay_first =
     RefreshToken_handler (sample_env\<lparr>Now := 1000 * Second + 300 * Millisecond\<rparr>)
       (Some sample_refresh_token) None (snd replay_login) Map.empty"

definition replay_second :: "Response \<times> DB \<times> redis" where
  "replay_second =
     RefreshToken_handler
       (sample_env\<lparr>Now := 1000 * Second + 600 * Millisecond, RedisUp := False\<rparr>)
       (Some sample_refresh_token) None (fst (snd replay_first)) (snd (snd replay_first))"

text \<open>
  The sample environment with a random token that is not in the store yet and a mail
  server that cannot be reached.
\<close>

definition mail_down_env :: Env where
  "mail_down_env =
     sample_env\<lparr>RandomToken := Some ''ffeeddccbbaa99887766554433221100ffeeddccbbaa99887766554433221100'',
                MailError := Some ''dial tcp: connection refused''\<rparr>"

section \<open>Properties of the signer\<close>

lemma Truncate_Second_le: "Truncate t Second \<le> t"
  by (simp add: Truncate_def Second_def)

lemma Truncate_Second_add:
  "Truncate (t + k * Second) Second = Truncate t Second + k * Second"
  by (simp add: Truncate_def Second_def distrib_right)

lemma access_expiry: "Truncate (now + 15 * Minute) Second = Truncate now Second + 15 * Minute"
  using Truncate_Second_add [of now "15 * 60"] by (simp add: Minute_def)

lemma refresh_expiry:
  "Truncate (now + 168 * Hour) Second = Truncate now Second + 168 * Hour"
  using Truncate_Second_add [of now "168 * 60 * 60"] by (simp add: Hour_def Minute_def)

lemma validate_fresh_access:
  assumes "\<not> now' < Truncate now Second" and "now' < Truncate now Second + 15 * Minute"
  shows "ValidateToken secret now' (GenerateAccessToken secret now uid) expected =
           (if expected = AccessToken
            then Inr \<lparr> UserID = uid, TokenType = AccessToken,
                       ExpiresAt = Some (Truncate now Second + 15 * Minute),
                       IssuedAt = Some (Truncate now Second),
                       NotBefore = Some (Truncate now Second),
                       Issuer = ''go-auth-system'' \<rparr>
            else Inl ErrInvalidTokenType)"
  using assms
  by (simp add: ValidateToken_def ParseWithClaims_def GenerateAccessToken_def
      NewNumericDate_def SigningMethodHMAC_def access_expiry)

lemma validate_fresh_refresh:
  assumes "\<not> now' < Truncate now Second" and "now' < Truncate now Second + 168 * Hour"
  shows "ValidateToken secret now' (GenerateRefreshToken secret now uid) expected =
           (if expected = RefreshToken
            then Inr \<lparr> UserID = uid, TokenType = RefreshToken,
                       ExpiresAt = Some (Truncate now Second + 168 * Hour),
                       IssuedAt = Some (Truncate now Second),
                       NotBefore = Some (Truncate now Second),
                       Issuer = ''go-auth-system'' \<rparr>
            else Inl ErrInvalidTokenType)"
  using assms
  by (simp add: ValidateToken_def ParseWithClaims_def GenerateRefreshToken_def
      NewNumericDate_def SigningMethodHMAC_def refresh_expiry)

text \<open>
  C3. A token issued for user \<open>uid\<close> at time \<open>now\<close> and validated at a time \<open>now'\<close> from
  \<open>now\<close> up to its expiry is accepted against its own kind, with the same user id, and is
  refused against the other kind. This holds for access and for refresh tokens.
\<close>

theorem signer_round_trip:
  assumes "now \<le> now'"
  shows "(now' < Truncate now Second + 15 * Minute \<longrightarrow>
           (\<exists>c. ValidateToken secret now' (GenerateAccessToken secret now uid) AccessToken = Inr c
                \<and> UserID c = uid)
           \<and> ValidateToken secret now' (GenerateAccessToken secret now uid) RefreshToken
               = Inl ErrInvalidTokenType)
       \<and> (now' < Truncate now Second + 7 * 24 * Hour \<longrightarrow>
           (\<exists>c. ValidateToken secret now' (GenerateRefreshToken secret now uid) RefreshToken = Inr c
                \<and> UserID c = uid)
           \<and> ValidateToken secret now' (GenerateRefreshToken secret now uid) AccessToken
               = Inl ErrInvalidTokenType)"
proof -
  have nbf: "\<not> now' < Truncate now Second"
    using assms Truncate_Second_le [of now] by linarith
  show ?thesis
    using nbf
    by (simp add: validate_fresh_access validate_fresh_refresh AccessToken_def RefreshToken_def)
qed

theorem signer_round_trip_witness:
  "(\<exists>c. ValidateToken ''k'' 5 (GenerateAccessToken ''k'' 5 7) AccessToken = Inr c \<and> UserID c = 7)
   \<and> ValidateToken ''k'' 5 (GenerateAccessToken ''k'' 5 7) RefreshToken = Inl ErrInvalidTokenType
   \<and> (\<exists>c. ValidateToken ''k'' 5 (GenerateRefreshToken ''k'' 5 7) RefreshToken = Inr c \<and> UserID c = 7)
   \<and> ValidateToken ''k'' 5 (GenerateRefreshToken ''k'' 5 7) AccessToken = Inl ErrInvalidTokenType"
  using signer_round_trip [of 5 5 "''k''" 7]
  by (simp add: Truncate_def Second_def Minute_def Hour_def)

section \<open>Properties of the password policy\<close>






section \<open>Lemmas about the store\<close>

lemma find_Some_set: "find P xs = Some u \<Longrightarrow> u \<in> set xs \<and> P u"
  by (induction xs) (auto split: if_splits)



lemma unique_token_row:
  assumes "distinct (map ott_Token rows)" and "r \<in> set rows" and "x \<in> set rows"
    and "ott_Token x = ott_Token r"
  shows "x = r"
  using assms by (meson distinct_map inj_onD)



lemma Save_user_tokens:
  "Save_user t u db = Some db2 \<Longrightarrow>
     password_reset_tokens db2 = password_reset_tokens db
     \<and> email_verification_tokens db2 = email_verification_tokens db
     \<and> refresh_tokens db2 = refresh_tokens db"
  by (auto simp: Save_user_def Create_user_def split: if_splits)

lemma sample_store_ok: "store_ok sample_db"
  by (simp add: store_ok_def sample_db_def sample_user_def)

lemma ValidateEmail_alice: "ValidateEmail ''alice@corp.io'' = Inr ''alice@corp.io''"
  by code_simp

section \<open>Account lockout\<close>



section \<open>One-time tokens\<close>

lemma consumed_rows_used:
  assumes d: "distinct (map ott_Token rows)" and r: "r \<in> set rows"
    and x: "x \<in> set (Save_one_time_token (r\<lparr>ott_Used := True\<rparr>) rows)"
    and t: "ott_Token x = ott_Token r"
  shows "ott_Used x"
proof -
  from x obtain y where y: "y \<in> set rows"
    and xy: "x = (if ott_ID y = ott_ID r then r\<lparr>ott_Used := True\<rparr> else y)"
    by (auto simp: Save_one_time_token_def)
  show ?thesis
  proof (cases "ott_ID y = ott_ID r")
    case True
    then show ?thesis using xy by simp
  next
    case False
    then have "x = y" using xy by simp
    then have "y = r" using unique_token_row [OF d r y] t by simp
    then show ?thesis using False by simp
  qed
qed

lemma consumed_row_present:
  assumes "r \<in> set rows"
  shows "r\<lparr>ott_Used := True\<rparr> \<in> set (Save_one_time_token (r\<lparr>ott_Used := True\<rparr>) rows)"
  using assms by (force simp: Save_one_time_token_def)

lemma no_usable_row:
  assumes "list_all (\<lambda>r. ott_Token r \<noteq> token \<or> ott_ExpiresAt r \<le> t \<or> ott_Used r) rows"
  shows "find (\<lambda>r. ott_Token r = token \<and> ott_ExpiresAt r > t \<and> ott_Used r = False) rows = None"
  using assms by (auto simp: find_None_iff list_all_iff)

lemma VerifyEmail_fails:
  assumes "find (\<lambda>r. ott_Token r = token \<and> ott_ExpiresAt r > Now env \<and> ott_Used r = False)
             (email_verification_tokens db) = None"
  shows "StatusCode (fst (VerifyEmail env token db)) = 400 \<and> snd (VerifyEmail env token db) = db"
  using assms by (simp add: VerifyEmail_def error_response_def)

lemma VerifyEmail_consumes:
  assumes ok: "store_ok db"
    and s: "StatusCode (fst (VerifyEmail env token db)) \<noteq> 400"
  shows "(\<exists>x\<in>set (email_verification_tokens (snd (VerifyEmail env token db))).
            ott_Token x = token \<and> ott_Used x)
         \<and> list_all (\<lambda>x. ott_Token x \<noteq> token \<or> ott_ExpiresAt x \<le> t \<or> ott_Used x)
             (email_verification_tokens (snd (VerifyEmail env token db)))"
proof -
  let ?P = "\<lambda>r. ott_Token r = token \<and> ott_ExpiresAt r > Now env \<and> ott_Used r = False"
  obtain r where f: "find ?P (email_verification_tokens db) = Some r"
    using s VerifyEmail_fails [of token env db]
    by (cases "find ?P (email_verification_tokens db)") auto
  have ne: "token \<noteq> []"
    using s by (auto simp: VerifyEmail_def error_response_def)
  have r: "r \<in> set (email_verification_tokens db)" and rt: "ott_Token r = token"
    using find_Some_set [OF f] by auto
  have d: "distinct (map ott_Token (email_verification_tokens db))"
    using ok by (simp add: store_ok_def)
  have rows: "email_verification_tokens (snd (VerifyEmail env token db)) =
          Save_one_time_token (r\<lparr>ott_Used := True\<rparr>) (email_verification_tokens db)"
    using f ne by (simp add: VerifyEmail_def)
  have "\<exists>x\<in>set (Save_one_time_token (r\<lparr>ott_Used := True\<rparr>) (email_verification_tokens db)).
          ott_Token x = token \<and> ott_Used x"
    using consumed_row_present [OF r] rt by (intro bexI [of _ "r\<lparr>ott_Used := True\<rparr>"]) simp_all
  moreover have "list_all (\<lambda>x. ott_Token x \<noteq> token \<or> ott_ExpiresAt x \<le> t \<or> ott_Used x)
          (Save_one_time_token (r\<lparr>ott_Used := True\<rparr>) (email_verification_tokens db))"
    using consumed_rows_used [OF d r] rt by (auto simp: list_all_iff)
  ultimately show ?thesis
    using rows by simp
qed

lemma ResetPassword_fails:
  assumes "find (\<lambda>r. ott_Token r = token \<and> ott_ExpiresAt r > Now env \<and> ott_Used r = False)
             (password_reset_tokens db) = None"
  shows "StatusCode (fst (ResetPassword env (Some (token, pw)) db)) = 400
         \<and> snd (ResetPassword env (Some (token, pw)) db) = db"
  using assms by (simp add: ResetPassword_def error_response_def split: option.splits)

lemma ResetPassword_consumes:
  assumes ok: "store_ok db"
    and s: "StatusCode (fst (ResetPassword env (Some (token, pw)) db)) \<noteq> 400"
  shows "(\<exists>x\<in>set (password_reset_tokens (snd (ResetPassword env (Some (token, pw)) db))).
            ott_Token x = token \<and> ott_Used x)
         \<and> list_all (\<lambda>x. ott_Token x \<noteq> token \<or> ott_ExpiresAt x \<le> t \<or> ott_Used x)
             (password_reset_tokens (snd (ResetPassword env (Some (token, pw)) db)))"
proof -
  let ?P = "\<lambda>r. ott_Token r = token \<and> ott_ExpiresAt r > Now env \<and> ott_Used r = False"
  obtain r where f: "find ?P (password_reset_tokens db) = Some r"
    using s ResetPassword_fails [of token env db pw]
    by (cases "find ?P (password_reset_tokens db)") auto
  have v: "ValidateTokenFormat token = None" "ValidatePassword pw = None"
    using s by (auto simp: ResetPassword_def error_response_def split: option.splits)
  have r: "r \<in> set (password_reset_tokens db)" and rt: "ott_Token r = token"
    using find_Some_set [OF f] by auto
  have d: "distinct (map ott_Token (password_reset_tokens db))"
    using ok by (simp add: store_ok_def)
  have rows: "password_reset_tokens (snd (ResetPassword env (Some (token, pw)) db)) =
          Save_one_time_token (r\<lparr>ott_Used := True\<rparr>) (password_reset_tokens db)"
    using f v by (auto simp: ResetPassword_def split: option.splits dest: Save_user_tokens)
  have "\<exists>x\<in>set (Save_one_time_token (r\<lparr>ott_Used := True\<rparr>) (password_reset_tokens db)).
          ott_Token x = token \<and> ott_Used x"
    using consumed_row_present [OF r] rt by (intro bexI [of _ "r\<lparr>ott_Used := True\<rparr>"]) simp_all
  moreover have "list_all (\<lambda>x. ott_Token x \<noteq> token \<or> ott_ExpiresAt x \<le> t \<or> ott_Used x)
          (Save_one_time_token (r\<lparr>ott_Used := True\<rparr>) (password_reset_tokens db))"
    using consumed_rows_used [OF d r] rt by (auto simp: list_all_iff)
  ultimately show ?thesis
    using rows by simp
qed

text \<open>
  C4. Consuming an email-verification token (\<open>VerifyEmail\<close>) or a password-reset token
  (\<open>ResetPassword\<close>) fails with status 400 and leaves the store as it was when every row
  of the table has another token, or an expiry that is not after now, or the used flag
  set. When the lookup succeeds (any answer but 400; for \<open>VerifyEmail\<close> that is 200) the
  row of the token is stored with the used flag set, and a second consumption of the same
  token then fails with status 400 at every time and with every new password.
\<close>

theorem one_time_token_single_use:
  assumes ok: "store_ok db"
  shows "(list_all (\<lambda>r. ott_Token r \<noteq> token \<or> ott_ExpiresAt r \<le> Now env \<or> ott_Used r)
            (email_verification_tokens db) \<longrightarrow>
            StatusCode (fst (VerifyEmail env token db)) = 400
            \<and> snd (VerifyEmail env token db) = db)
       \<and> (StatusCode (fst (VerifyEmail env token db)) \<noteq> 400 \<longrightarrow>
            StatusCode (fst (VerifyEmail env token db)) = 200
            \<and> (\<exists>x\<in>set (email_verification_tokens (snd (VerifyEmail env token db))).
                  ott_Token x = token \<and> ott_Used x)
            \<and> (\<forall>env'. StatusCode (fst (VerifyEmail env' token (snd (VerifyEmail env token db)))) = 400
                      \<and> snd (VerifyEmail env' token (snd (VerifyEmail env token db)))
                          = snd (VerifyEmail env token db)))
       \<and> (list_all (\<lambda>r. ott_Token r \<noteq> token \<or> ott_ExpiresAt r \<le> Now env \<or> ott_Used r)
            (password_reset_tokens db) \<longrightarrow>
            StatusCode (fst (ResetPassword env (Some (token, pw)) db)) = 400
            \<and> snd (ResetPassword env (Some (token, pw)) db) = db)
       \<and> (StatusCode (fst (ResetPassword env (Some (token, pw)) db)) \<noteq> 400 \<longrightarrow>
            (\<exists>x\<in>set (password_reset_tokens (snd (ResetPassword env (Some (token, pw)) db))).
                  ott_Token x = token \<and> ott_Used x)
            \<and> (\<forall>env' pw'.
                  StatusCode (fst (ResetPassword env' (Some (token, pw'))
                                    (snd (ResetPassword env (Some (token, pw)) db)))) = 400
                  \<and> snd (ResetPassword env' (Some (token, pw'))
                           (snd (ResetPassword env (Some (token, pw)) db)))
                      = snd (ResetPassword env (Some (token, pw)) db)))"
proof (intro conjI impI allI)
  assume "list_all (\<lambda>r. ott_Token r \<noteq> token \<or> ott_ExpiresAt r \<le> Now env \<or> ott_Used r)
            (email_verification_tokens db)"
  then have "find (\<lambda>r. ott_Token r = token \<and> ott_ExpiresAt r > Now env \<and> ott_Used r = False)
               (email_verification_tokens db) = None"
    by (rule no_usable_row)
  then show "StatusCode (fst (VerifyEmail env token db)) = 400"
    and "snd (VerifyEmail env token db) = db"
    using VerifyEmail_fails by blast+
next
  assume s: "StatusCode (fst (VerifyEmail env token db)) \<noteq> 400"
  then show "StatusCode (fst (VerifyEmail env token db)) = 200"
    by (auto simp: VerifyEmail_def error_response_def message_response_def
        split: option.splits if_splits)
  show "\<exists>x\<in>set (email_verification_tokens (snd (VerifyEmail env token db))).
          ott_Token x = token \<and> ott_Used x"
    using VerifyEmail_consumes [OF ok s] by blast
  fix env' :: Env
  have "find (\<lambda>r. ott_Token r = token \<and> ott_ExpiresAt r > Now env' \<and> ott_Used r = False)
          (email_verification_tokens (snd (VerifyEmail env token db))) = None"
    using VerifyEmail_consumes [OF ok s, of "Now env'"] by (intro no_usable_row) blast
  then show "StatusCode (fst (VerifyEmail env' token (snd (VerifyEmail env token db)))) = 400"
    and "snd (VerifyEmail env' token (snd (VerifyEmail env token db)))
           = snd (VerifyEmail env token db)"
    using VerifyEmail_fails by blast+
next
  assume "list_all (\<lambda>r. ott_Token r \<noteq> token \<or> ott_ExpiresAt r \<le> Now env \<or> ott_Used r)
            (password_reset_tokens db)"
  then have "find (\<lambda>r. ott_Token r = token \<and> ott_ExpiresAt r > Now env \<and> ott_Used r = False)
               (password_reset_tokens db) = None"
    by (rule no_usable_row)
  then show "StatusCode (fst (ResetPassword env (Some (token, pw)) db)) = 400"
    and "snd (ResetPassword env (Some (token, pw)) db) = db"
    using ResetPassword_fails by blast+
next
  assume s: "StatusCode (fst (ResetPassword env (Some (token, pw)) db)) \<noteq> 400"
  show "\<exists>x\<in>set (password_reset_tokens (snd (ResetPassword env (Some (token, pw)) db))).
          ott_Token x = token \<and> ott_Used x"
    using ResetPassword_consumes [OF ok s] by blast
  fix env' :: Env and pw' :: string
  have "find (\<lambda>r. ott_Token r = token \<and> ott_ExpiresAt r > Now env' \<and> ott_Used r = False)
          (password_reset_tokens (snd (ResetPassword env (Some (token, pw)) db))) = None"
    using ResetPassword_consumes [OF ok s, of "Now env'"] by (intro no_usable_row) blast
  then show "StatusCode (fst (ResetPassword env' (Some (token, pw'))
                                    (snd (ResetPassword env (Some (token, pw)) db)))) = 400"
    and "snd (ResetPassword env' (Some (token, pw'))
                           (snd (ResetPassword env (Some (token, pw)) db)))
                      = snd (ResetPassword env (Some (token, pw)) db)"
    using ResetPassword_fails by blast+
qed

lemma sample_token_format: "ValidateTokenFormat sample_token = None"
  by code_simp

lemma sample_new_password: "ValidatePassword ''Tr0ub4dor&Horse'' = None"
  by code_simp

lemma sample_token_nonempty: "sample_token \<noteq> []"
  by (simp add: sample_token_def)

lemma VerifyEmail_sample:
  "StatusCode (fst (VerifyEmail sample_env sample_token sample_db)) = 200"
  using sample_token_nonempty
  by (simp add: VerifyEmail_def sample_env_def sample_db_def sample_one_time_token_def
      message_response_def Second_def)

lemma ResetPassword_sample:
  "StatusCode (fst (ResetPassword sample_env (Some (sample_token, ''Tr0ub4dor&Horse'')) sample_db)) = 200"
  using sample_token_format sample_new_password
  by (simp add: ResetPassword_def sample_env_def sample_db_def sample_one_time_token_def
      sample_user_def message_response_def Second_def SetPassword_def Save_user_def
      ResetFailedLoginCount_def UnlockAccount_def)

theorem one_time_token_single_use_witness:
  "store_ok sample_db
   \<and> StatusCode (fst (VerifyEmail sample_env sample_token sample_db)) = 200
   \<and> StatusCode (fst (VerifyEmail sample_env sample_token
                        (snd (VerifyEmail sample_env sample_token sample_db)))) = 400
   \<and> StatusCode (fst (VerifyEmail (sample_env\<lparr>Now := 3000 * Second\<rparr>) sample_token sample_db)) = 400
   \<and> StatusCode (fst (ResetPassword sample_env (Some (sample_token, ''Tr0ub4dor&Horse'')) sample_db))
       = 200
   \<and> StatusCode (fst (ResetPassword sample_env (Some (sample_token, ''Tr0ub4dor&Horse''))
                        (snd (ResetPassword sample_env (Some (sample_token, ''Tr0ub4dor&Horse''))
                                sample_db)))) = 400
   \<and> StatusCode (fst (ResetPassword (sample_env\<lparr>Now := 3000 * Second\<rparr>)
                        (Some (sample_token, ''Tr0ub4dor&Horse'')) sample_db)) = 400"
proof -
  have expired:
    "list_all (\<lambda>r. ott_Token r \<noteq> sample_token
                 \<or> ott_ExpiresAt r \<le> Now (sample_env\<lparr>Now := 3000 * Second\<rparr>) \<or> ott_Used r)
       (email_verification_tokens sample_db)"
    "list_all (\<lambda>r. ott_Token r \<noteq> sample_token
                 \<or> ott_ExpiresAt r \<le> Now (sample_env\<lparr>Now := 3000 * Second\<rparr>) \<or> ott_Used r)
       (password_reset_tokens sample_db)"
    by (simp_all add: sample_db_def sample_one_time_token_def Second_def)
  have v: "StatusCode (fst (VerifyEmail sample_env sample_token sample_db)) \<noteq> 400"
    using VerifyEmail_sample by simp
  have r: "StatusCode (fst (ResetPassword sample_env (Some (sample_token, ''Tr0ub4dor&Horse'')) sample_db))
             \<noteq> 400"
    using ResetPassword_sample by simp
  note t1 = one_time_token_single_use [OF sample_store_ok, of sample_token sample_env "''Tr0ub4dor&Horse''"]
  note t2 = one_time_token_single_use [OF sample_store_ok, of sample_token
      "sample_env\<lparr>Now := 3000 * Second\<rparr>" "''Tr0ub4dor&Horse''"]
  show ?thesis
    using sample_store_ok VerifyEmail_sample ResetPassword_sample t1 t2 expired v r
    by blast
qed

section \<open>The failed-attempt counter is cleared by three requests only\<close>




















section \<open>The login rate limiter\<close>

lemma LoginRateLimit_in_window:
  assumes up: "RedisUp env"
    and e: "rd (login_attempts ip) = Some (Counter n, Some e)"
    and n: "1 \<le> n" and t: "Now env < e"
  shows "LoginRateLimit m w env ip rd =
           (if n + 1 > m then Abort (too_many_login_attempts w) else Next (),
            rd(login_attempts ip \<mapsto> (Counter (n + 1), Some e)))"
  using assms
  by (simp add: LoginRateLimit_def redis_Incr_def redis_live_def too_many_login_attempts_def)

lemma LoginRateLimit_first:
  assumes up: "RedisUp env"
    and e: "redis_live rd (Now env) (login_attempts ip) = None"
  shows "LoginRateLimit m w env ip rd =
           (if 1 > m then Abort (too_many_login_attempts w) else Next (),
            rd(login_attempts ip \<mapsto> (Counter 1, Some (Now env + formatSec w * Second))))"
  using assms
  by (simp add: LoginRateLimit_def redis_Incr_def redis_Expire_def redis_live_def
      too_many_login_attempts_def)

lemma login_attempts_in_window:
  assumes up: "RedisUp env"
    and e: "rd (login_attempts ip) = Some (Counter n, Some e)"
    and n: "1 \<le> n" and t: "\<forall>t\<in>set ts. t < e"
  shows "login_attempt_series m w env ip ts rd =
           (map (\<lambda>k. if n + int k + 1 > m then Abort (too_many_login_attempts w) else Next ())
              [0..<length ts],
            rd(login_attempts ip \<mapsto> (Counter (n + int (length ts)), Some e)))"
  using e n t
proof (induction ts arbitrary: n rd)
  case Nil
  then show ?case by (simp add: fun_upd_idem)
next
  case (Cons t ts)
  let ?rd1 = "rd(login_attempts ip \<mapsto> (Counter (n + 1), Some e))"
  have step: "LoginRateLimit m w (env\<lparr>Now := t\<rparr>) ip rd =
                (if n + 1 > m then Abort (too_many_login_attempts w) else Next (), ?rd1)"
    using up Cons.prems by (intro LoginRateLimit_in_window) simp_all
  have ih: "login_attempt_series m w env ip ts ?rd1 =
           (map (\<lambda>k. if (n + 1) + int k + 1 > m then Abort (too_many_login_attempts w) else Next ())
              [0..<length ts],
            ?rd1(login_attempts ip \<mapsto> (Counter ((n + 1) + int (length ts)), Some e)))"
    using Cons.prems by (intro Cons.IH) simp_all
  have shift: "map (\<lambda>k. if n + int k + 1 > m then Abort (too_many_login_attempts w) else Next ())
                 [0..<length (t # ts)]
               = (if n + 1 > m then Abort (too_many_login_attempts w) else Next ())
                 # map (\<lambda>k. if (n + 1) + int k + 1 > m then Abort (too_many_login_attempts w) else Next ())
                     [0..<length ts]"
    by (simp add: map_upt_Suc ac_simps del: upt_Suc)
  show ?case
    by (subst shift) (use step ih in \<open>simp add: ac_simps del: upt_Suc\<close>)
qed


text \<open>
  C9. While the cache answers: when a client address has no live counter at the time \<open>t0\<close>
  of a login request, that request and the requests that follow it before the counter
  expires are numbered from 1, the first \<open>maxAttempts\<close> of them pass on to the handler and
  every further one is answered 429 with the message of the limiter. The expiry of the
  counter is set once, by the first request, to \<open>t0\<close> plus the window as \<^verbatim>\<open>EXPIRE\<close>
  receives it, and later requests leave it there. The retry-after value of the answer is
  the configured window, not the time the counter has left. On the login route a request
  that the limiter refuses does not reach \<open>Login\<close>: the answer is the limiter's for every
  body and the store stays as it was.
\<close>

theorem login_rate_limit_window:
  assumes up: "RedisUp env"
    and fresh: "redis_live rd t0 (login_attempts ip) = None"
    and win: "\<forall>t\<in>set ts. t0 \<le> t \<and> t < t0 + formatSec w * Second"
  shows "login_attempt_series m w env ip (t0 # ts) rd =
           (map (\<lambda>k. if int k < m then Next () else Abort (too_many_login_attempts w))
              [0..<Suc (length ts)],
            rd(login_attempts ip \<mapsto>
                 (Counter (1 + int (length ts)), Some (t0 + formatSec w * Second))))
         \<and> (\<forall>r db input. fst (LoginRateLimit 5 (15 * 60) env ip rd) = Abort r \<longrightarrow>
               fst (login_route env ip input db rd) = r
               \<and> fst (snd (login_route env ip input db rd)) = db)"
proof
  let ?rd1 = "rd(login_attempts ip \<mapsto> (Counter 1, Some (t0 + formatSec w * Second)))"
  have first: "LoginRateLimit m w (env\<lparr>Now := t0\<rparr>) ip rd =
                 (if 1 > m then Abort (too_many_login_attempts w) else Next (), ?rd1)"
    using up fresh LoginRateLimit_first [of "env\<lparr>Now := t0\<rparr>" rd ip m w] by simp
  have rest: "login_attempt_series m w env ip ts ?rd1 =
           (map (\<lambda>k. if 1 + int k + 1 > m then Abort (too_many_login_attempts w) else Next ())
              [0..<length ts],
            ?rd1(login_attempts ip \<mapsto> (Counter (1 + int (length ts)), Some (t0 + formatSec w * Second))))"
    using up win by (intro login_attempts_in_window) simp_all
  have shape: "map (\<lambda>k. if int k < m then Next () else Abort (too_many_login_attempts w))
                 [0..<Suc (length ts)]
               = (if 1 > m then Abort (too_many_login_attempts w) else Next ())
                 # map (\<lambda>k. if 1 + int k + 1 > m then Abort (too_many_login_attempts w) else Next ())
                     [0..<length ts]"
    by (auto simp: map_upt_Suc simp del: upt_Suc)
  show "login_attempt_series m w env ip (t0 # ts) rd =
           (map (\<lambda>k. if int k < m then Next () else Abort (too_many_login_attempts w))
              [0..<Suc (length ts)],
            rd(login_attempts ip \<mapsto>
                 (Counter (1 + int (length ts)), Some (t0 + formatSec w * Second))))"
    by (subst shape) (use first rest in \<open>simp del: upt_Suc\<close>)
next
  show "\<forall>r db input. fst (LoginRateLimit 5 (15 * 60) env ip rd) = Abort r \<longrightarrow>
               fst (login_route env ip input db rd) = r
               \<and> fst (snd (login_route env ip input db rd)) = db"
    by (auto simp: login_route_def split: prod.splits outcome.splits)
qed

theorem login_rate_limit_window_witness:
  "login_attempt_series 5 (15 * 60) sample_env ''10.0.0.1'' [0, 1, 2, 3, 4, 5] Map.empty =
     ([Next (), Next (), Next (), Next (), Next (), Abort (too_many_login_attempts (15 * 60))],
      Map.empty(login_attempts ''10.0.0.1'' \<mapsto> (Counter 6, Some Second)))"
proof -
  have up: "RedisUp sample_env"
    by (simp add: sample_env_def)
  have fresh: "redis_live Map.empty 0 (login_attempts ''10.0.0.1'') = None"
    by (simp add: redis_live_def)
  have w: "formatSec (15 * 60) = 1"
    by (simp add: formatSec_def Second_def)
  have win: "\<forall>t\<in>set [1, 2, 3, 4, 5]. (0::int) \<le> t \<and> t < 0 + formatSec (15 * 60) * Second"
    using w by (simp add: Second_def)
  have A: "login_attempt_series 5 (15 * 60) sample_env ''10.0.0.1'' [0, 1, 2, 3, 4, 5] Map.empty =
           (map (\<lambda>k. if int k < 5 then Next () else Abort (too_many_login_attempts (15 * 60)))
              [0..<Suc (length [1, 2, 3, 4, 5 :: int])],
            Map.empty(login_attempts ''10.0.0.1'' \<mapsto>
                 (Counter (1 + int (length [1, 2, 3, 4, 5 :: int])),
                  Some (0 + formatSec (15 * 60) * Second))))"
    using login_rate_limit_window [OF up fresh win, of 5] by (rule conjunct1)
  have B: "(map (\<lambda>k. if int k < 5 then Next () else Abort (too_many_login_attempts (15 * 60)))
              [0..<Suc (length [1, 2, 3, 4, 5 :: int])],
            Map.empty(login_attempts ''10.0.0.1'' \<mapsto>
                 (Counter (1 + int (length [1, 2, 3, 4, 5 :: int])),
                  Some (0 + formatSec (15 * 60) * Second))))
           = ([Next (), Next (), Next (), Next (), Next (), Abort (too_many_login_attempts (15 * 60))],
              Map.empty(login_attempts ''10.0.0.1'' \<mapsto> (Counter 6, Some Second)))"
    using w by (simp add: upt_rec)
  show ?thesis
    by (rule trans [OF A B])
qed

text \<open>
  The claim as stated fails on the login route as \<^verbatim>\<open>SetupRoutes\<close> configures it
  (\<^verbatim>\<open>LoginRateLimit(5, 15*60)\<close>): the sixth request, half a second after the first, is
  refused with a retry-after of 900 nanoseconds while the counter has half a second to
  live; and a seventh request two seconds after the first passes, since the counter
  expired after one second.
\<close>

theorem login_rate_limit_counterexample:
  "fst (login_attempt_series 5 (15 * 60) sample_env ''10.0.0.1''
          [0, 1, 2, 3, 4, 500 * Millisecond, 2 * Second] Map.empty)
     = [Next (), Next (), Next (), Next (), Next (),
        Abort \<lparr>StatusCode = 429,
               JSON = [(''error'', JString ''Too many login attempts''),
                       (''retry_after'', JSeconds 900)]\<rparr>,
        Next ()]
   \<and> redis_TTL (snd (login_attempt_series 5 (15 * 60) sample_env ''10.0.0.1'' [0, 1, 2, 3, 4] Map.empty))
        (500 * Millisecond) (login_attempts ''10.0.0.1'') = Some (500 * Millisecond)
   \<and> 500 * Millisecond \<noteq> (900 :: Duration)
   \<and> 2 * Second < 15 * Minute"
  by (simp add: LoginRateLimit_def redis_Incr_def redis_live_def redis_Expire_def redis_TTL_def
      formatSec_def quot_def Second_def Millisecond_def Minute_def sample_env_def)

section \<open>Revocation and the surfacing of token errors\<close>

lemmas token_eval = ValidateToken_def ParseWithClaims_def GenerateAccessToken_def
  GenerateRefreshToken_def NewNumericDate_def Truncate_def SigningMethodHMAC_def
  AccessToken_def RefreshToken_def Second_def Minute_def Hour_def Millisecond_def

lemmas redis_eval = redis_Get_def redis_Set_def redis_live_def usePrecise_def formatSec_def
  formatMs_def quot_def

lemma sample_access_valid:
  "ValidateToken ''secret'' (1000 * Second) sample_access_token AccessToken
     = Inr \<lparr>UserID = 1, TokenType = AccessToken, ExpiresAt = Some (1900 * Second),
            IssuedAt = Some (1000 * Second), NotBefore = Some (1000 * Second),
            Issuer = ''go-auth-system''\<rparr>"
  by (simp add: sample_access_token_def token_eval)

lemma expired_access_invalid:
  "ValidateToken ''secret'' (1000 * Second) expired_access_token AccessToken = Inl ErrTokenExpired"
  by (simp add: expired_access_token_def token_eval)

lemma sample_blacklist_hit:
  "redis_Get True sample_blacklist (1000 * Second) (blacklist sample_access_token)
     = RedisReply (Text ''true'')"
  by (simp add: sample_blacklist_def redis_eval Second_def Minute_def)

lemma sample_blacklist_miss:
  "redis_Get True sample_blacklist (1000 * Second) (blacklist expired_access_token) = RedisNil"
  by (simp add: sample_blacklist_def redis_eval sample_access_token_def expired_access_token_def
      token_eval)


text \<open>
  The claim that all failures are surfaced with the same message fails: a revoked token
  and an expired token get different answers from \<open>AuthMiddleware\<close>.
\<close>

theorem error_surfacing_counterexample:
  "AuthMiddleware sample_env (Some sample_access_token) sample_blacklist
     = Abort (error_response 401 ''Token has been revoked'')
   \<and> AuthMiddleware sample_env (Some expired_access_token) sample_blacklist
     = Abort (error_response 401 ''Invalid token'')
   \<and> error_response 401 ''Token has been revoked'' \<noteq> error_response 401 ''Invalid token''"
  using sample_access_valid sample_blacklist_hit expired_access_invalid sample_blacklist_miss
  by (simp add: AuthMiddleware_def sample_env_def error_response_def)

lemma ValidateToken_failures:
  "ValidateToken secret t (NotAJWT s) kind = Inl ErrTokenMalformed"
  "\<not> SigningMethodHMAC m \<Longrightarrow> ValidateToken secret t (JWT m k c) kind = Inl ErrTokenUnverifiable"
  "SigningMethodHMAC m \<Longrightarrow> k \<noteq> secret \<Longrightarrow>
     ValidateToken secret t (JWT m k c) kind = Inl ErrTokenSignatureInvalid"
  "SigningMethodHMAC m \<Longrightarrow> ExpiresAt c = Some e \<Longrightarrow> e \<le> t \<Longrightarrow>
     ValidateToken secret t (JWT m secret c) kind = Inl ErrTokenExpired"
  "ParseWithClaims secret t tok = Inr c \<Longrightarrow> TokenType c \<noteq> kind \<Longrightarrow>
     ValidateToken secret t tok kind = Inl ErrInvalidTokenType"
  by (simp_all add: ValidateToken_def ParseWithClaims_def)

text \<open>
  C7. Access-token verification answers every failure of \<open>ValidateToken\<close>, whatever its
  error, with 401 and the one message "Invalid token", and a token seen on the blacklist
  with 401 and the message "Token has been revoked". Refresh rotation answers every
  failure of \<open>ValidateToken\<close> with 401 and "Invalid refresh token" and leaves store and
  cache as they were, and a valid token seen on the blacklist with 401 and "Refresh token
  has been revoked". The failures of \<open>ValidateToken\<close> are: a string that is no token, a
  method outside the HMAC family, a signature under another key, an expiry that is not
  after now, and another kind than the expected one.
\<close>

theorem error_surfacing:
  "(ValidateToken (JWTSecret env) (Now env) tok AccessToken = Inl err
      \<and> redis_Get (RedisUp env) rd (Now env) (blacklist tok) \<noteq> RedisReply (Text ''true'') \<longrightarrow>
      AuthMiddleware env (Some tok) rd = Abort (error_response 401 ''Invalid token''))
   \<and> (redis_Get (RedisUp env) rd (Now env) (blacklist tok) = RedisReply (Text ''true'') \<longrightarrow>
      AuthMiddleware env (Some tok) rd = Abort (error_response 401 ''Token has been revoked''))
   \<and> (ValidateToken (JWTSecret env) (Now env) tok RefreshToken = Inl err \<longrightarrow>
      RefreshToken_handler env (Some tok) authHeader db rd
        = (error_response 401 ''Invalid refresh token'', db, rd))
   \<and> (ValidateToken (JWTSecret env) (Now env) tok RefreshToken = Inr c
      \<and> redis_Get (RedisUp env) rd (Now env) (blacklist tok) = RedisReply (Text ''true'') \<longrightarrow>
      RefreshToken_handler env (Some tok) authHeader db rd
        = (error_response 401 ''Refresh token has been revoked'', db, rd))
   \<and> ValidateToken secret t (NotAJWT s) kind = Inl ErrTokenMalformed
   \<and> (\<not> SigningMethodHMAC m \<longrightarrow> ValidateToken secret t (JWT m k cl) kind = Inl ErrTokenUnverifiable)
   \<and> (SigningMethodHMAC m \<and> k \<noteq> secret \<longrightarrow>
        ValidateToken secret t (JWT m k cl) kind = Inl ErrTokenSignatureInvalid)
   \<and> (SigningMethodHMAC m \<and> ExpiresAt cl = Some e \<and> e \<le> t \<longrightarrow>
        ValidateToken secret t (JWT m secret cl) kind = Inl ErrTokenExpired)
   \<and> (ParseWithClaims secret t tok = Inr cl \<and> TokenType cl \<noteq> kind \<longrightarrow>
        ValidateToken secret t tok kind = Inl ErrInvalidTokenType)"
  by (simp add: AuthMiddleware_def RefreshToken_handler_def ValidateToken_failures)

theorem error_surfacing_witness:
  "AuthMiddleware sample_env (Some expired_access_token) sample_blacklist
     = Abort (error_response 401 ''Invalid token'')
   \<and> AuthMiddleware sample_env (Some sample_access_token) sample_blacklist
     = Abort (error_response 401 ''Token has been revoked'')
   \<and> RefreshToken_handler sample_env (Some expired_access_token) None sample_db sample_blacklist
     = (error_response 401 ''Invalid refresh token'', sample_db, sample_blacklist)"
proof -
  have e: "JWTSecret sample_env = ''secret''" "Now sample_env = 1000 * Second" "RedisUp sample_env"
    by (simp_all add: sample_env_def)
  have miss: "redis_Get (RedisUp sample_env) sample_blacklist (Now sample_env) (blacklist expired_access_token)
                \<noteq> RedisReply (Text ''true'')"
    using sample_blacklist_miss e by simp
  have hit: "redis_Get (RedisUp sample_env) sample_blacklist (Now sample_env) (blacklist sample_access_token)
                = RedisReply (Text ''true'')"
    using sample_blacklist_hit e by simp
  have bad: "ValidateToken (JWTSecret sample_env) (Now sample_env) expired_access_token AccessToken
               = Inl ErrTokenExpired"
    using expired_access_invalid e by simp
  have bad2: "ValidateToken (JWTSecret sample_env) (Now sample_env) expired_access_token RefreshToken
               = Inl ErrTokenExpired"
    by (simp add: e expired_access_token_def token_eval)
  note T = error_surfacing [of sample_env expired_access_token ErrTokenExpired sample_blacklist
      None sample_db]
  note U = error_surfacing [of sample_env sample_access_token ErrTokenExpired sample_blacklist
      None sample_db]
  have a1: "AuthMiddleware sample_env (Some expired_access_token) sample_blacklist
              = Abort (error_response 401 ''Invalid token'')"
    using conjunct1 [OF T] bad miss by blast
  have a2: "AuthMiddleware sample_env (Some sample_access_token) sample_blacklist
              = Abort (error_response 401 ''Token has been revoked'')"
    using conjunct1 [OF conjunct2 [OF U]] hit by blast
  have a3: "RefreshToken_handler sample_env (Some expired_access_token) None sample_db sample_blacklist
              = (error_response 401 ''Invalid refresh token'', sample_db, sample_blacklist)"
    using conjunct1 [OF conjunct2 [OF conjunct2 [OF T]]] bad2 by blast
  show ?thesis
    using a1 a2 a3 by blast
qed


section \<open>Refresh rotation\<close>

lemma same_second_tokens:
  "GenerateAccessToken ''secret'' (1000 * Second + 300 * Millisecond) 1 = sample_access_token"
  "GenerateRefreshToken ''secret'' (1000 * Second + 300 * Millisecond) 1 = sample_refresh_token"
  "GenerateAccessToken ''secret'' (1000 * Second + 600 * Millisecond) 1 = sample_access_token"
  "GenerateRefreshToken ''secret'' (1000 * Second + 600 * Millisecond) 1 = sample_refresh_token"
  by (simp_all add: sample_access_token_def sample_refresh_token_def token_eval)

lemma sample_refresh_valid:
  "t = 1000 * Second + 300 * Millisecond \<or> t = 1000 * Second + 600 * Millisecond \<Longrightarrow>
   ValidateToken ''secret'' t sample_refresh_token RefreshToken
     = Inr \<lparr>UserID = 1, TokenType = RefreshToken, ExpiresAt = Some (1000 * Second + 168 * Hour),
            IssuedAt = Some (1000 * Second), NotBefore = Some (1000 * Second),
            Issuer = ''go-auth-system''\<rparr>"
  by (auto simp: sample_refresh_token_def token_eval)

lemma replay_login_eval:
  "replay_login =
     (token_response sample_access_token sample_refresh_token,
      sample_db\<lparr>users := [sample_user\<lparr>FailedLoginCount := 0, LockedUntil := None,
                                        LastLoginAt := Some (1000 * Second),
                                        UpdatedAt := 1000 * Second\<rparr>],
                refresh_tokens := [\<lparr>rt_ID = 1, rt_UserID = 1, rt_Token = sample_refresh_token,
                                    rt_ExpiresAt = 1000 * Second + 7 * 24 * Hour,
                                    rt_CreatedAt = 1000 * Second\<rparr>],
                refresh_tokens_seq := 1\<rparr>)"
  using ValidateEmail_alice
  by (simp add: replay_login_def Login_def sample_env_def sample_db_def sample_user_def
      IsAccountLocked_def CheckPassword_def Save_user_def or_unchanged_def
      ResetFailedLoginCount_def UnlockAccount_def Create_refresh_token_def
      sample_access_token_def sample_refresh_token_def)


lemma replay_first_eval:
  "replay_first =
     (token_response sample_access_token sample_refresh_token,
      sample_db\<lparr>users := [sample_user\<lparr>FailedLoginCount := 0, LockedUntil := None,
                                        LastLoginAt := Some (1000 * Second),
                                        UpdatedAt := 1000 * Second\<rparr>],
                refresh_tokens := [\<lparr>rt_ID = 2, rt_UserID = 1, rt_Token = sample_refresh_token,
                                    rt_ExpiresAt = 1000 * Second + 300 * Millisecond + 7 * 24 * Hour,
                                    rt_CreatedAt = 1000 * Second + 300 * Millisecond\<rparr>],
                refresh_tokens_seq := 2\<rparr>,
      Map.empty(blacklist sample_refresh_token \<mapsto>
        (Text ''true'', Some (1000 * Second + 300 * Millisecond + 7 * 24 * Hour))))"
  using sample_refresh_valid [of "1000 * Second + 300 * Millisecond"] same_second_tokens
  by (simp add: replay_first_def replay_login_eval RefreshToken_handler_def sample_env_def
      redis_eval blacklist_access_token_def Create_refresh_token_def)
    (simp add: Second_def Millisecond_def Hour_def Minute_def)

text \<open>
  C1. On the sample account, a login, a refresh with the token of the login and a second
  refresh with the very same token string, all within one second of the clock: the first
  refresh succeeds and issues, as its new refresh token, the string it was given (signing
  is deterministic and the dates of the claims are whole seconds), so the row it deletes
  is stored again. The second refresh, served while the cache does not answer, succeeds
  too. With the cache answering, the second refresh is refused as revoked: the blacklist
  entry alone stands between the token and its second use.
\<close>

theorem refresh_replay_accepted:
  "fst replay_login = token_response sample_access_token sample_refresh_token
   \<and> fst replay_first = token_response sample_access_token sample_refresh_token
   \<and> fst replay_second = token_response sample_access_token sample_refresh_token
   \<and> StatusCode (fst replay_second) = 200
   \<and> fst (RefreshToken_handler (sample_env\<lparr>Now := 1000 * Second + 600 * Millisecond\<rparr>)
            (Some sample_refresh_token) None (fst (snd replay_first)) (snd (snd replay_first)))
       = error_response 401 ''Refresh token has been revoked''"
proof -
  have "fst replay_second = token_response sample_access_token sample_refresh_token"
    using sample_refresh_valid [of "1000 * Second + 600 * Millisecond"] same_second_tokens
    by (simp add: replay_second_def replay_first_eval RefreshToken_handler_def sample_env_def
        redis_Get_def redis_Set_def blacklist_access_token_def Create_refresh_token_def)
      (simp add: Second_def Millisecond_def Hour_def Minute_def)
  moreover have "fst (RefreshToken_handler (sample_env\<lparr>Now := 1000 * Second + 600 * Millisecond\<rparr>)
            (Some sample_refresh_token) None (fst (snd replay_first)) (snd (snd replay_first)))
       = error_response 401 ''Refresh token has been revoked''"
    using sample_refresh_valid [of "1000 * Second + 600 * Millisecond"]
    by (simp add: replay_first_eval RefreshToken_handler_def sample_env_def redis_eval)
      (simp add: Second_def Millisecond_def Hour_def Minute_def)
  ultimately show ?thesis
    by (simp add: replay_login_eval replay_first_eval token_response_def)
qed


text \<open>
  What does hold: when the rotation issues a string other than the one it was given, which
  it does whenever the token was issued in an earlier second of the clock, the row of the
  old token is gone and every later refresh with it is answered 401, whatever the cache
  holds or answers.
\<close>

lemma validated_claims:
  assumes "ValidateToken secret t tok kind = Inr c"
  shows "\<exists>m. tok = JWT m secret c"
  using assms
  by (auto simp: ValidateToken_def ParseWithClaims_def split: jwt.splits if_splits sum.splits)

lemma rotation_issues_new_string:
  assumes v: "ValidateToken (JWTSecret env) (Now env) tok RefreshToken = Inr c"
    and later: "IssuedAt c \<noteq> Some (Truncate (Now env) Second)"
  shows "GenerateRefreshToken (JWTSecret env) (Now env) (UserID c) \<noteq> tok"
proof
  assume eq: "GenerateRefreshToken (JWTSecret env) (Now env) (UserID c) = tok"
  obtain m where "tok = JWT m (JWTSecret env) c"
    using validated_claims [OF v] by blast
  then have "\<lparr>UserID = UserID c, TokenType = RefreshToken,
               ExpiresAt = NewNumericDate (Now env + 7 * 24 * Hour),
               IssuedAt = NewNumericDate (Now env), NotBefore = NewNumericDate (Now env),
               Issuer = ''go-auth-system''\<rparr> = c"
    using eq by (simp add: GenerateRefreshToken_def)
  then have "IssuedAt \<lparr>UserID = UserID c, TokenType = RefreshToken,
               ExpiresAt = NewNumericDate (Now env + 7 * 24 * Hour),
               IssuedAt = NewNumericDate (Now env), NotBefore = NewNumericDate (Now env),
               Issuer = ''go-auth-system''\<rparr> = IssuedAt c"
    by (rule arg_cong)
  then show False using later by (simp add: NewNumericDate_def)
qed

lemma RefreshToken_rotated_away:
  assumes v: "ValidateToken (JWTSecret env) (Now env) tok RefreshToken = Inr c"
    and new: "GenerateRefreshToken (JWTSecret env) (Now env) (UserID c) \<noteq> tok"
    and s: "StatusCode (fst (RefreshToken_handler env (Some tok) hdr db rd)) = 200"
  shows "StatusCode (fst (RefreshToken_handler env' (Some tok) hdr'
                            (fst (snd (RefreshToken_handler env (Some tok) hdr db rd)))
                            (snd (snd (RefreshToken_handler env (Some tok) hdr db rd))))) = 401"
proof -
  let ?db1 = "fst (snd (RefreshToken_handler env (Some tok) hdr db rd))"
  have rows: "\<forall>r\<in>set (refresh_tokens ?db1). rt_Token r \<noteq> tok"
    using v new s
    by (auto simp: RefreshToken_handler_def Create_refresh_token_def error_response_def
        split: option.splits if_splits)
  then have "find (\<lambda>r. rt_Token r = tok \<and> rt_ExpiresAt r > Now env') (refresh_tokens ?db1) = None"
    by (auto simp: find_None_iff)
  then show ?thesis
    by (simp add: RefreshToken_handler_def error_response_def split: sum.splits)
qed

section \<open>Forgot password\<close>

lemma ValidateEmail_example_com:
  "ValidateEmail ''test@example.com'' = Inl ''email domain is not allowed for registration''"
  "ValidateEmail ''nobody@example.com'' = Inl ''email domain is not allowed for registration''"
  by code_simp+

lemma ValidateEmail_nobody: "ValidateEmail ''nobody@corp.io'' = Inr ''nobody@corp.io''"
  by code_simp

text \<open>
  When the reset token is stored and the mail is delivered, the answer for an existing
  account is the answer for an unknown address.
\<close>

lemma ForgotPassword_delivered:
  assumes "ValidateEmail email = Inr e" and "ValidateEmail email' = Inr e'"
    and "find (\<lambda>u. Email u = e) (users db) = Some user"
    and "find (\<lambda>u. Email u = e') (users db) = None"
    and "RandomToken env = Some resetToken"
    and "\<not> list_ex (\<lambda>x. ott_Token x = resetToken) (password_reset_tokens db)"
    and "MailError env = None"
  shows "fst (ForgotPassword env (Some email) db) = fst (ForgotPassword env (Some email') db)"
  using assms by (simp add: ForgotPassword_def Create_password_reset_token_def)

text \<open>
  C5. The two addresses of the claim are both refused with status 400, before any lookup,
  because \<open>ValidateEmail\<close> blocks the domain example.com. For two addresses that pass
  validation, one of the sample account and one of no account, and a mail server that
  cannot be reached, the answers differ: the answer for the existing account carries the
  reset token, a note and the mail error.
\<close>

theorem forgot_password_reveals_account:
  "fst (ForgotPassword env (Some ''test@example.com'') db)
     = error_response 400 ''email domain is not allowed for registration''
   \<and> fst (ForgotPassword env (Some ''nobody@example.com'') db)
     = error_response 400 ''email domain is not allowed for registration''
   \<and> fst (ForgotPassword mail_down_env (Some ''alice@corp.io'') sample_db)
     = \<lparr>StatusCode = 200,
        JSON = [(''message'', JString ''If the email exists, a password reset link has been sent''),
                (''reset_token'',
                 JString ''ffeeddccbbaa99887766554433221100ffeeddccbbaa99887766554433221100''),
                (''note'', JString ''Email sending failed - using token for testing''),
                (''error'', JString ''dial tcp: connection refused'')]\<rparr>
   \<and> fst (ForgotPassword mail_down_env (Some ''nobody@corp.io'') sample_db)
     = message_response 200 ''If the email exists, a password reset link has been sent''
   \<and> fst (ForgotPassword mail_down_env (Some ''alice@corp.io'') sample_db)
     \<noteq> fst (ForgotPassword mail_down_env (Some ''nobody@corp.io'') sample_db)"
  using ValidateEmail_example_com ValidateEmail_alice ValidateEmail_nobody
  by (simp add: ForgotPassword_def mail_down_env_def sample_env_def sample_db_def sample_user_def
      sample_one_time_token_def sample_token_def Create_password_reset_token_def
      message_response_def)

end
